theory Spec2Isabelle
  imports Main
begin

section \<open>The Keyp provider of packages/core/src/providers/keyp.ts\<close>

text \<open>
  The file exports one function, \<open>Keyp(config)\<close>, which returns the provider object the
  authentication core registers. The object carries fixed endpoint strings, the scope sent
  with the authorization request, the client authentication method, a \<open>profile\<close> method
  that maps the claims of the userinfo endpoint to the core's user object, and the caller's
  configuration under \<open>options\<close>. The only ambient input is the environment variable
  \<open>NEXT_PUBLIC_KEYP_API_DOMAIN\<close>.
\<close>

subsection \<open>JavaScript values\<close>

text \<open>
  Claims are JSON data of arbitrary shape (\<open>Record<string, any>\<close>). Numbers are IEEE
  doubles in the source; the provider never computes with them, so their type is left
  abstract. An object is a finite map from property names to values; a property may be
  present and hold \<open>undefined\<close>, which differs from the property being absent.
\<close>

typedecl jsnumber

datatype jsval =
    Undefined
  | Null
  | Bool bool
  | Num jsnumber
  | Str string
  | Arr "jsval list"
  | Obj "string \<Rightarrow> jsval option"

type_synonym obj = "string \<rightharpoonup> jsval"

text \<open>The property read \<open>o.k\<close>: an absent property reads as \<open>undefined\<close>.\<close>

definition getprop :: "obj \<Rightarrow> string \<Rightarrow> jsval" where
  "getprop ob k = (case ob k of None \<Rightarrow> Undefined | Some v \<Rightarrow> v)"

subsection \<open>Errors\<close>

text \<open>
  A call either returns a value (\<open>Inr\<close>) or raises (\<open>Inl\<close>). The error kinds are the
  two the provider contract names for this file: a configuration error at build time and
  a protocol-compliance error at normalization time. The file itself has no \<open>throw\<close>
  statement, so neither function below has an \<open>Inl\<close> branch of its own.
\<close>

datatype error = ConfigurationError | ProtocolComplianceError

subsection \<open>Configuration and provider object\<close>

text \<open>
  \<open>config\<close> has type \<open>OIDCUserConfig<P> & AdditionalConfig\<close>. \<open>Keyp\<close> reads \<open>clientId\<close>
  and \<open>scope\<close>; \<open>redirectUrl\<close> is declared by \<open>AdditionalConfig\<close>. Every other option of
  \<open>OIDCUserConfig\<close> (declared in \<open>./index.js\<close>) is the extension part of the record. A
  field of type \<open>string | undefined\<close> is a \<open>string option\<close>.
\<close>

record config =
  clientId :: "string option"
  redirectUrl :: "string option"
  scope :: "string option"

text \<open>The environment \<open>process.env\<close>: variable names to strings.\<close>

type_synonym process_env = "string \<rightharpoonup> string"

record authorization_params =
  scope :: string

record authorization =
  url :: string
  params :: authorization_params

record token =
  url :: string

record client =
  token_endpoint_auth_method :: string

record style =
  logo :: string
  logoDark :: string
  bg :: string
  "text" :: string
  bgDark :: string
  textDark :: string

text \<open>
  The returned object. The fields \<open>id\<close> and \<open>profile\<close> of the source are \<open>id'\<close> and
  \<open>profile'\<close> here: \<open>id\<close> is the identity function of HOL and \<open>profile\<close> names the method
  itself below. \<open>'c\<close> is the type of the configuration kept under \<open>options\<close>.
\<close>

record 'c descriptor =
  id' :: string
  name :: string
  type :: string
  clientId :: "string option"
  issuer :: string
  wellKnown :: string
  authorization :: authorization
  token :: token
  userinfo :: string
  client :: client
  profile' :: "obj \<Rightarrow> error + obj"
  style :: style
  options :: 'c

subsection \<open>The profile method\<close>

text \<open>
  \<^verbatim>\<open>profile(profile: P) { return { id: profile.sub, name: profile.username,
    email: profile.email, image: profile.imageSrc, address: profile.address } }\<close>

  Five property reads and one object literal with five own properties; no statement of
  the body raises.
\<close>

definition profile :: "obj \<Rightarrow> error + obj" where
  "profile p = Inr [''id'' \<mapsto> getprop p ''sub'',
                    ''name'' \<mapsto> getprop p ''username'',
                    ''email'' \<mapsto> getprop p ''email'',
                    ''image'' \<mapsto> getprop p ''imageSrc'',
                    ''address'' \<mapsto> getprop p ''address'']"

subsection \<open>The function Keyp\<close>

text \<open>
  \<open>scope ? scope : defaultScope\<close> and \<open>process.env.X || "https://api.usekeyp.com"\<close> both
  test a \<open>string | undefined\<close> for truthiness: \<open>undefined\<close> and the empty string are
  falsy, every other string is truthy.
\<close>

definition truthy_or :: "string option \<Rightarrow> string \<Rightarrow> string" where
  "truthy_or v dflt = (case v of None \<Rightarrow> dflt | Some s \<Rightarrow> if s = [] then dflt else s)"

definition Keyp :: "process_env \<Rightarrow> 'm config_scheme \<Rightarrow> error + 'm config_scheme descriptor" where
  "Keyp env cfg =
    (let clientId = config.clientId cfg;
         scope = config.scope cfg;
         defaultScope = ''openid email'';
         KEYP_API_DOMAIN =
           truthy_or (env ''NEXT_PUBLIC_KEYP_API_DOMAIN'') ''https://api.usekeyp.com''
     in Inr \<lparr> id' = ''keyp'',
              name = ''Keyp'',
              type = ''oidc'',
              clientId = clientId,
              issuer = ''https://api.usekeyp.com'',
              wellKnown = KEYP_API_DOMAIN @ ''/oauth/.well-known/openid-configuration'',
              authorization =
                \<lparr> authorization.url = ''https://app.usekeyp.com/oauth/auth'',
                  params = \<lparr> authorization_params.scope = truthy_or scope defaultScope \<rparr> \<rparr>,
              token = \<lparr> token.url = ''https://api.usekeyp.com/oauth/token'' \<rparr>,
              userinfo = ''https://api.usekeyp.com/oauth/me'',
              client = \<lparr> token_endpoint_auth_method = ''none'' \<rparr>,
              profile' = profile,
              style = \<lparr> logo = ''/keyp.svg'',
                        logoDark = ''/keyp-dark.svg'',
                        bg = ''#fff'',
                        text = ''#005285'',
                        bgDark = ''#005285'',
                        textDark = ''#fff'' \<rparr>,
              options = cfg \<rparr>)"

subsection \<open>The profile method on objects passed by reference\<close>

text \<open>
  JavaScript passes objects by reference, so a method could write to the object it is
  given. To state that \<open>profile\<close> does not, the call is also given on a store: a cell
  for every address, those below \<open>lim\<close> allocated. Claims are JSON data, so their nested
  values are carried by value; the addresses are those of the two objects the method
  touches, the claims object it is given and the object it returns. The body reads the
  argument's properties and evaluates one object literal, which allocates a new object;
  it contains no assignment.
\<close>

type_synonym addr = nat

record store =
  cells :: "addr \<Rightarrow> obj"
  lim :: addr

definition alloc :: "store \<Rightarrow> obj \<Rightarrow> addr \<times> store" where
  "alloc st ob = (lim st, st\<lparr> cells := (cells st)(lim st := ob), lim := Suc (lim st) \<rparr>)"

definition profile_call :: "store \<Rightarrow> addr \<Rightarrow> (error + addr) \<times> store" where
  "profile_call st r =
     (case profile (cells st r) of
        Inl e \<Rightarrow> (Inl e, st)
      | Inr u \<Rightarrow> (case alloc st u of (a, st') \<Rightarrow> (Inr a, st')))"

section \<open>Basic facts\<close>

lemma getprop_Some: "ob k = Some v \<Longrightarrow> getprop ob k = v"
  by (simp add: getprop_def)

lemma getprop_None: "ob k = None \<Longrightarrow> getprop ob k = Undefined"
  by (simp add: getprop_def)

lemma getprop_other: "k \<noteq> k' \<Longrightarrow> getprop (ob(k := v)) k' = getprop ob k'"
  by (simp add: getprop_def)

lemma profile_other_claim:
  assumes "k \<notin> {''sub'', ''username'', ''email'', ''imageSrc'', ''address''}"
  shows "profile (p(k := v)) = profile p"
proof -
  from assms have "k \<noteq> ''sub''" "k \<noteq> ''username''" "k \<noteq> ''email''"
    "k \<noteq> ''imageSrc''" "k \<noteq> ''address''"
    by simp_all
  then show ?thesis
    by (simp add: profile_def getprop_other)
qed

lemma profile_returns: "\<exists>u. profile p = Inr u"
  by (simp add: profile_def)

lemma alloc_frame:
  assumes "alloc st ob = (a, st')"
  shows "a = lim st" and "lim st' = Suc (lim st)" and "cells st' a = ob"
    and "\<And>b. b < lim st \<Longrightarrow> cells st' b = cells st b"
  using assms by (auto simp add: alloc_def)

section \<open>Properties of the descriptor builder\<close>

text \<open>
  C1. For every configuration, \<open>Keyp\<close> returns a descriptor; when \<open>config.scope\<close> is a
  non-empty string the scope of the authorization parameters is that string unchanged, and
  when it is absent or the empty string the scope is exactly \<open>"openid email"\<close>. The two
  are never merged.
\<close>

theorem Keyp_scope_replaces_default:
  "\<exists>d. Keyp env cfg = Inr d \<and>
     (\<forall>s. config.scope cfg = Some s \<and> s \<noteq> [] \<longrightarrow>
          authorization_params.scope (params (authorization d)) = s) \<and>
     (config.scope cfg = None \<or> config.scope cfg = Some [] \<longrightarrow>
          authorization_params.scope (params (authorization d)) = ''openid email'')"
  by (simp add: Keyp_def Let_def truthy_or_def)

theorem Keyp_scope_replaces_default_witness:
  "(\<exists>d. Keyp Map.empty \<lparr> config.clientId = Some ''abc123'', redirectUrl = None,
                          config.scope = Some ''openid profile'' \<rparr> = Inr d \<and>
        authorization_params.scope (params (authorization d)) = ''openid profile'') \<and>
   (\<exists>d. Keyp Map.empty \<lparr> config.clientId = Some ''abc123'', redirectUrl = None,
                          config.scope = None \<rparr> = Inr d \<and>
        authorization_params.scope (params (authorization d)) = ''openid email'')"
  using Keyp_scope_replaces_default [of Map.empty
          "\<lparr> config.clientId = Some ''abc123'', redirectUrl = None,
             config.scope = Some ''openid profile'' \<rparr>"]
        Keyp_scope_replaces_default [of Map.empty
          "\<lparr> config.clientId = Some ''abc123'', redirectUrl = None,
             config.scope = None \<rparr>"]
  by simp

text \<open>
  C5. For every configuration and environment, the returned descriptor has
  \<open>client.token_endpoint_auth_method = "none"\<close>; no field of the configuration, declared
  or not, changes it.
\<close>

theorem Keyp_client_auth_none:
  "\<exists>d. Keyp env cfg = Inr d \<and> token_endpoint_auth_method (client d) = ''none''"
proof -
  obtain d where d: "Keyp env cfg = Inr d"
    by (simp add: Keyp_def Let_def)
  then have "token_endpoint_auth_method (client d) = ''none''"
    by (auto simp add: Keyp_def Let_def)
  with d show ?thesis by blast
qed

text \<open>
  C6, as claimed: a configuration whose \<open>clientId\<close> is missing makes the build raise a
  ConfigurationError. The source has no check of \<open>clientId\<close>: for the configuration
  \<open>{}\<close> the call returns, and the descriptor's \<open>clientId\<close> is \<open>undefined\<close>.
\<close>

theorem Keyp_missing_clientId_counterexample:
  "Keyp Map.empty \<lparr> config.clientId = None, redirectUrl = None, config.scope = None \<rparr>
     \<noteq> Inl ConfigurationError \<and>
   map_sum id descriptor.clientId
     (Keyp Map.empty \<lparr> config.clientId = None, redirectUrl = None, config.scope = None \<rparr>)
     = Inr None"
  by (simp add: Keyp_def Let_def)

text \<open>
  C6, amended: when \<open>clientId\<close> is missing or the empty string, \<open>Keyp\<close> raises nothing and
  returns a descriptor whose \<open>clientId\<close> is the caller's value as it was given (absent,
  or the empty string).
\<close>

theorem Keyp_clientId_passed_through:
  assumes "config.clientId cfg = None \<or> config.clientId cfg = Some []"
  shows "\<exists>d. Keyp env cfg = Inr d \<and> descriptor.clientId d = config.clientId cfg
           \<and> options d = cfg"
  using assms by (auto simp add: Keyp_def Let_def)

theorem Keyp_clientId_passed_through_witness:
  "\<exists>d. Keyp Map.empty \<lparr> config.clientId = Some [], redirectUrl = None,
                         config.scope = None \<rparr> = Inr d \<and>
       descriptor.clientId d = Some []"
  using Keyp_clientId_passed_through [of
          "\<lparr> config.clientId = Some [], redirectUrl = None, config.scope = None \<rparr>"
          Map.empty]
  by auto

text \<open>
  C7, as claimed: whenever the override is set, the discovery URL is built from it. The
  source tests the variable with \<open>||\<close>, so an override set to the empty string is
  passed over and the default domain is used.
\<close>

theorem Keyp_empty_override_counterexample:
  "map_sum id wellKnown
     (Keyp [''NEXT_PUBLIC_KEYP_API_DOMAIN'' \<mapsto> []]
           \<lparr> config.clientId = Some ''abc123'', redirectUrl = None, config.scope = None \<rparr>)
     = Inr ''https://api.usekeyp.com/oauth/.well-known/openid-configuration'' \<and>
   map_sum id wellKnown
     (Keyp [''NEXT_PUBLIC_KEYP_API_DOMAIN'' \<mapsto> []]
           \<lparr> config.clientId = Some ''abc123'', redirectUrl = None, config.scope = None \<rparr>)
     \<noteq> Inr ([] @ ''/oauth/.well-known/openid-configuration'')"
  by (simp add: Keyp_def Let_def truthy_or_def)

text \<open>
  C7, amended: the discovery URL is the override followed by
  \<open>/oauth/.well-known/openid-configuration\<close> when the override is a non-empty string, and
  is built from \<open>https://api.usekeyp.com\<close> when the override is absent or the empty
  string. Issuer, authorization, token and userinfo endpoints are constants. The
  environment is consulted by the build only: under any other environment the build
  returns the same descriptor up to \<open>wellKnown\<close>, so nothing in the descriptor (the
  \<open>profile\<close> method included) reads the environment again.
\<close>

theorem Keyp_discovery_domain:
  "\<exists>d. Keyp env cfg = Inr d \<and>
     (\<forall>dm. env ''NEXT_PUBLIC_KEYP_API_DOMAIN'' = Some dm \<and> dm \<noteq> [] \<longrightarrow>
        wellKnown d = dm @ ''/oauth/.well-known/openid-configuration'') \<and>
     (env ''NEXT_PUBLIC_KEYP_API_DOMAIN'' = None \<or>
      env ''NEXT_PUBLIC_KEYP_API_DOMAIN'' = Some [] \<longrightarrow>
        wellKnown d = ''https://api.usekeyp.com/oauth/.well-known/openid-configuration'') \<and>
     issuer d = ''https://api.usekeyp.com'' \<and>
     authorization.url (authorization d) = ''https://app.usekeyp.com/oauth/auth'' \<and>
     token.url (token d) = ''https://api.usekeyp.com/oauth/token'' \<and>
     userinfo d = ''https://api.usekeyp.com/oauth/me'' \<and>
     (\<forall>env'. \<exists>d'. Keyp env' cfg = Inr d' \<and> d'\<lparr> wellKnown := wellKnown d \<rparr> = d)"
proof -
  obtain d where d: "Keyp env cfg = Inr d"
    by (simp add: Keyp_def Let_def)
  have override: "wellKnown d = dm @ ''/oauth/.well-known/openid-configuration''"
    if "env ''NEXT_PUBLIC_KEYP_API_DOMAIN'' = Some dm" and "dm \<noteq> []" for dm
    using d that by (auto simp add: Keyp_def Let_def truthy_or_def)
  have fallback:
    "wellKnown d = ''https://api.usekeyp.com/oauth/.well-known/openid-configuration''"
    if "env ''NEXT_PUBLIC_KEYP_API_DOMAIN'' = None \<or>
        env ''NEXT_PUBLIC_KEYP_API_DOMAIN'' = Some []"
    using d that by (auto simp add: Keyp_def Let_def truthy_or_def)
  have fixed: "issuer d = ''https://api.usekeyp.com''"
    "authorization.url (authorization d) = ''https://app.usekeyp.com/oauth/auth''"
    "token.url (token d) = ''https://api.usekeyp.com/oauth/token''"
    "userinfo d = ''https://api.usekeyp.com/oauth/me''"
    using d by (auto simp add: Keyp_def Let_def)
  have once: "\<exists>d'. Keyp env' cfg = Inr d' \<and> d'\<lparr> wellKnown := wellKnown d \<rparr> = d" for env'
    using d by (auto simp add: Keyp_def Let_def)
  from d override fallback fixed once show ?thesis
    by blast
qed

theorem Keyp_discovery_domain_witness:
  "(\<exists>d. Keyp [''NEXT_PUBLIC_KEYP_API_DOMAIN'' \<mapsto> ''http://localhost:4000'']
            \<lparr> config.clientId = Some ''abc123'', redirectUrl = None, config.scope = None \<rparr>
          = Inr d \<and>
        wellKnown d = ''http://localhost:4000/oauth/.well-known/openid-configuration'' \<and>
        issuer d = ''https://api.usekeyp.com'') \<and>
   (\<exists>d. Keyp Map.empty
            \<lparr> config.clientId = Some ''abc123'', redirectUrl = None, config.scope = None \<rparr>
          = Inr d \<and>
        wellKnown d = ''https://api.usekeyp.com/oauth/.well-known/openid-configuration'')"
  using Keyp_discovery_domain [of "[''NEXT_PUBLIC_KEYP_API_DOMAIN'' \<mapsto> ''http://localhost:4000'']"
          "\<lparr> config.clientId = Some ''abc123'', redirectUrl = None, config.scope = None \<rparr>"]
        Keyp_discovery_domain [of Map.empty
          "\<lparr> config.clientId = Some ''abc123'', redirectUrl = None, config.scope = None \<rparr>"]
  by auto

text \<open>
  C8. Two builds from the same configuration, under environments that give the override
  variable the same value, return the same descriptor; the environments may differ
  in every other variable.
\<close>

theorem Keyp_deterministic:
  assumes "cfg1 = cfg2"
    and "env1 ''NEXT_PUBLIC_KEYP_API_DOMAIN'' = env2 ''NEXT_PUBLIC_KEYP_API_DOMAIN''"
  shows "\<exists>d. Keyp env1 cfg1 = Inr d \<and> Keyp env2 cfg2 = Inr d"
  using assms by (simp add: Keyp_def Let_def)

theorem Keyp_deterministic_witness:
  "\<exists>d. Keyp [''NEXT_PUBLIC_KEYP_API_DOMAIN'' \<mapsto> ''http://localhost:4000'']
           \<lparr> config.clientId = Some ''abc123'', redirectUrl = None,
             config.scope = Some ''openid profile'' \<rparr> = Inr d \<and>
       Keyp [''NEXT_PUBLIC_KEYP_API_DOMAIN'' \<mapsto> ''http://localhost:4000'', ''HOME'' \<mapsto> ''/root'']
           \<lparr> config.clientId = Some ''abc123'', redirectUrl = None,
             config.scope = Some ''openid profile'' \<rparr> = Inr d"
  using Keyp_deterministic [of
          "\<lparr> config.clientId = Some ''abc123'', redirectUrl = None,
             config.scope = Some ''openid profile'' \<rparr>"
          "\<lparr> config.clientId = Some ''abc123'', redirectUrl = None,
             config.scope = Some ''openid profile'' \<rparr>"
          "[''NEXT_PUBLIC_KEYP_API_DOMAIN'' \<mapsto> ''http://localhost:4000'']"
          "[''NEXT_PUBLIC_KEYP_API_DOMAIN'' \<mapsto> ''http://localhost:4000'', ''HOME'' \<mapsto> ''/root'']"]
  by simp

section \<open>Properties of the profile method\<close>

text \<open>
  C2. When the claims hold a non-empty string under \<open>sub\<close>, the method returns, and the
  \<open>id\<close> of the result is that very string: the same characters in the same order and
  case.
\<close>

theorem profile_id_is_sub:
  assumes "p ''sub'' = Some (Str s)" and "s \<noteq> []"
  shows "\<exists>u. profile p = Inr u \<and> u ''id'' = Some (Str s)"
proof -
  from assms(1) have "getprop p ''sub'' = Str s"
    by (simp add: getprop_def)
  then show ?thesis
    by (simp add: profile_def)
qed

theorem profile_id_is_sub_witness:
  "\<exists>u. profile [''sub'' \<mapsto> Str ''AbC-0123456789abcdef  xYz''] = Inr u \<and>
       u ''id'' = Some (Str ''AbC-0123456789abcdef  xYz'')"
  using profile_id_is_sub [of "[''sub'' \<mapsto> Str ''AbC-0123456789abcdef  xYz'']"
          "''AbC-0123456789abcdef  xYz''"]
  by simp

text \<open>
  C3, as claimed: the address is returned inside an \<open>extensions\<close> object. The object
  literal of the source has no \<open>extensions\<close> property: for the claims of the scenario
  the result differs from the claimed one, and reading \<open>extensions\<close> from it gives
  \<open>undefined\<close>.
\<close>

theorem profile_extensions_counterexample:
  "profile [''sub'' \<mapsto> Str ''u1'', ''username'' \<mapsto> Str ''alice'',
            ''email'' \<mapsto> Str ''a@x.com'', ''imageSrc'' \<mapsto> Str ''https://x/img.png'',
            ''address'' \<mapsto> Str ''0xabc'']
   \<noteq> Inr [''id'' \<mapsto> Str ''u1'', ''name'' \<mapsto> Str ''alice'',
           ''email'' \<mapsto> Str ''a@x.com'', ''image'' \<mapsto> Str ''https://x/img.png'',
           ''extensions'' \<mapsto> Obj [''address'' \<mapsto> Str ''0xabc'']]"
proof
  assume "profile [''sub'' \<mapsto> Str ''u1'', ''username'' \<mapsto> Str ''alice'',
            ''email'' \<mapsto> Str ''a@x.com'', ''imageSrc'' \<mapsto> Str ''https://x/img.png'',
            ''address'' \<mapsto> Str ''0xabc'']
   = Inr [''id'' \<mapsto> Str ''u1'', ''name'' \<mapsto> Str ''alice'',
           ''email'' \<mapsto> Str ''a@x.com'', ''image'' \<mapsto> Str ''https://x/img.png'',
           ''extensions'' \<mapsto> Obj [''address'' \<mapsto> Str ''0xabc'']]"
  then have "[''id'' \<mapsto> Str ''u1'', ''name'' \<mapsto> Str ''alice'',
              ''email'' \<mapsto> Str ''a@x.com'', ''image'' \<mapsto> Str ''https://x/img.png'',
              ''address'' \<mapsto> Str ''0xabc'']
           = [''id'' \<mapsto> Str ''u1'', ''name'' \<mapsto> Str ''alice'',
              ''email'' \<mapsto> Str ''a@x.com'', ''image'' \<mapsto> Str ''https://x/img.png'',
              ''extensions'' \<mapsto> Obj [''address'' \<mapsto> Str ''0xabc'']]"
    by (simp add: profile_def getprop_def)
  then have "[''id'' \<mapsto> Str ''u1'', ''name'' \<mapsto> Str ''alice'',
              ''email'' \<mapsto> Str ''a@x.com'', ''image'' \<mapsto> Str ''https://x/img.png'',
              ''address'' \<mapsto> Str ''0xabc''] ''extensions''
           = [''id'' \<mapsto> Str ''u1'', ''name'' \<mapsto> Str ''alice'',
              ''email'' \<mapsto> Str ''a@x.com'', ''image'' \<mapsto> Str ''https://x/img.png'',
              ''extensions'' \<mapsto> Obj [''address'' \<mapsto> Str ''0xabc'']] ''extensions''"
    by (rule fun_cong)
  then show False
    by simp
qed

text \<open>
  C3, amended: the address claim is passed through as the top-level property
  \<open>address\<close> of the result, which has no \<open>extensions\<close> property; for the claims of the
  scenario the result is
  \<open>{id: "u1", name: "alice", email: "a@x.com", image: "https://x/img.png", address: "0xabc"}\<close>,
  and a further claim such as \<open>locale\<close> changes nothing in it.
\<close>

theorem profile_address_top_level:
  "(\<exists>u. profile p = Inr u \<and> u ''address'' = Some (getprop p ''address'') \<and>
        u ''extensions'' = None) \<and>
   profile [''sub'' \<mapsto> Str ''u1'', ''username'' \<mapsto> Str ''alice'',
            ''email'' \<mapsto> Str ''a@x.com'', ''imageSrc'' \<mapsto> Str ''https://x/img.png'',
            ''address'' \<mapsto> Str ''0xabc'']
     = Inr [''id'' \<mapsto> Str ''u1'', ''name'' \<mapsto> Str ''alice'',
            ''email'' \<mapsto> Str ''a@x.com'', ''image'' \<mapsto> Str ''https://x/img.png'',
            ''address'' \<mapsto> Str ''0xabc''] \<and>
   profile [''sub'' \<mapsto> Str ''u1'', ''username'' \<mapsto> Str ''alice'',
            ''email'' \<mapsto> Str ''a@x.com'', ''imageSrc'' \<mapsto> Str ''https://x/img.png'',
            ''address'' \<mapsto> Str ''0xabc'', ''locale'' \<mapsto> Str ''en'']
     = Inr [''id'' \<mapsto> Str ''u1'', ''name'' \<mapsto> Str ''alice'',
            ''email'' \<mapsto> Str ''a@x.com'', ''image'' \<mapsto> Str ''https://x/img.png'',
            ''address'' \<mapsto> Str ''0xabc'']"
  by (simp add: profile_def getprop_def)

text \<open>
  C4, as claimed: for the claims \<open>{sub: "u2"}\<close> the result is
  \<open>{id: "u2", name: undefined, email: undefined, image: undefined, extensions: {}}\<close>.
  The result of the source has no \<open>extensions\<close> property and has an \<open>address\<close>
  property holding \<open>undefined\<close>.
\<close>

theorem profile_sub_only_counterexample:
  "profile [''sub'' \<mapsto> Str ''u2'']
   \<noteq> Inr [''id'' \<mapsto> Str ''u2'', ''name'' \<mapsto> Undefined, ''email'' \<mapsto> Undefined,
           ''image'' \<mapsto> Undefined, ''extensions'' \<mapsto> Obj Map.empty]"
proof
  assume "profile [''sub'' \<mapsto> Str ''u2'']
   = Inr [''id'' \<mapsto> Str ''u2'', ''name'' \<mapsto> Undefined, ''email'' \<mapsto> Undefined,
           ''image'' \<mapsto> Undefined, ''extensions'' \<mapsto> Obj Map.empty]"
  then have "[''id'' \<mapsto> getprop [''sub'' \<mapsto> Str ''u2''] ''sub'',
              ''name'' \<mapsto> getprop [''sub'' \<mapsto> Str ''u2''] ''username'',
              ''email'' \<mapsto> getprop [''sub'' \<mapsto> Str ''u2''] ''email'',
              ''image'' \<mapsto> getprop [''sub'' \<mapsto> Str ''u2''] ''imageSrc'',
              ''address'' \<mapsto> getprop [''sub'' \<mapsto> Str ''u2''] ''address'']
           = [''id'' \<mapsto> Str ''u2'', ''name'' \<mapsto> Undefined, ''email'' \<mapsto> Undefined,
              ''image'' \<mapsto> Undefined, ''extensions'' \<mapsto> Obj Map.empty]"
    (is "?actual = ?claimed")
    by (simp only: profile_def sum.inject)
  then have "?actual ''extensions'' = ?claimed ''extensions''"
    by (rule arg_cong)
  then show False
    by simp
qed

text \<open>
  C4, amended: for claims that hold a subject, the method returns without raising; the
  \<open>id\<close> is the subject, and each of \<open>name\<close>, \<open>email\<close>, \<open>image\<close> whose claim
  (\<open>username\<close>, \<open>email\<close>, \<open>imageSrc\<close>) is missing holds \<open>undefined\<close>, never the empty
  string. For \<open>{sub: "u2"}\<close> the result is
  \<open>{id: "u2", name: undefined, email: undefined, image: undefined, address: undefined}\<close>.
\<close>

theorem profile_missing_optional_claims:
  "(p ''sub'' = Some sub \<longrightarrow>
     (\<exists>u. profile p = Inr u \<and> u ''id'' = Some sub \<and>
       (p ''username'' = None \<longrightarrow>
          u ''name'' = Some Undefined \<and> getprop u ''name'' \<noteq> Str []) \<and>
       (p ''email'' = None \<longrightarrow>
          u ''email'' = Some Undefined \<and> getprop u ''email'' \<noteq> Str []) \<and>
       (p ''imageSrc'' = None \<longrightarrow>
          u ''image'' = Some Undefined \<and> getprop u ''image'' \<noteq> Str []))) \<and>
   profile [''sub'' \<mapsto> Str ''u2'']
     = Inr [''id'' \<mapsto> Str ''u2'', ''name'' \<mapsto> Undefined, ''email'' \<mapsto> Undefined,
            ''image'' \<mapsto> Undefined, ''address'' \<mapsto> Undefined]"
proof (intro conjI impI)
  assume sub: "p ''sub'' = Some sub"
  show "\<exists>u. profile p = Inr u \<and> u ''id'' = Some sub \<and>
       (p ''username'' = None \<longrightarrow>
          u ''name'' = Some Undefined \<and> getprop u ''name'' \<noteq> Str []) \<and>
       (p ''email'' = None \<longrightarrow>
          u ''email'' = Some Undefined \<and> getprop u ''email'' \<noteq> Str []) \<and>
       (p ''imageSrc'' = None \<longrightarrow>
          u ''image'' = Some Undefined \<and> getprop u ''image'' \<noteq> Str [])"
  proof (intro exI conjI impI)
    show "profile p = Inr [''id'' \<mapsto> getprop p ''sub'', ''name'' \<mapsto> getprop p ''username'',
            ''email'' \<mapsto> getprop p ''email'', ''image'' \<mapsto> getprop p ''imageSrc'',
            ''address'' \<mapsto> getprop p ''address'']"
      by (simp only: profile_def)
  qed (simp_all add: sub getprop_Some getprop_None)
next
  show "profile [''sub'' \<mapsto> Str ''u2'']
     = Inr [''id'' \<mapsto> Str ''u2'', ''name'' \<mapsto> Undefined, ''email'' \<mapsto> Undefined,
            ''image'' \<mapsto> Undefined, ''address'' \<mapsto> Undefined]"
    by (simp add: profile_def getprop_def)
qed

theorem profile_missing_optional_claims_witness:
  "[''sub'' \<mapsto> Str ''u2''] ''sub'' = Some (Str ''u2'') \<and>
   [''sub'' \<mapsto> Str ''u2''] ''username'' = None \<and>
   [''sub'' \<mapsto> Str ''u2''] ''email'' = None \<and>
   [''sub'' \<mapsto> Str ''u2''] ''imageSrc'' = None \<and>
   (\<exists>u. profile [''sub'' \<mapsto> Str ''u2''] = Inr u \<and> u ''id'' = Some (Str ''u2'') \<and>
        u ''name'' = Some Undefined \<and> getprop u ''name'' \<noteq> Str [] \<and>
        u ''email'' = Some Undefined \<and> getprop u ''email'' \<noteq> Str [] \<and>
        u ''image'' = Some Undefined \<and> getprop u ''image'' \<noteq> Str [])"
  using profile_missing_optional_claims [of "[''sub'' \<mapsto> Str ''u2'']" "Str ''u2''"]
  by (simp add: getprop_def)

text \<open>
  C10. The result has exactly the five properties \<open>id\<close>, \<open>name\<close>, \<open>email\<close>, \<open>image\<close>
  and \<open>address\<close>. Each holds the value the claims object has under \<open>sub\<close>,
  \<open>username\<close>, \<open>email\<close>, \<open>imageSrc\<close> and \<open>address\<close> respectively, and
  \<open>undefined\<close> where the claims object has no such property. No other claim reaches
  the result: setting or removing any other claim leaves the result unchanged.
\<close>

theorem profile_five_fields:
  "\<exists>u. profile p = Inr u \<and>
     dom u = {''id'', ''name'', ''email'', ''image'', ''address''} \<and>
     (\<forall>v. p ''sub'' = Some v \<longrightarrow> u ''id'' = Some v) \<and>
     (p ''sub'' = None \<longrightarrow> u ''id'' = Some Undefined) \<and>
     (\<forall>v. p ''username'' = Some v \<longrightarrow> u ''name'' = Some v) \<and>
     (p ''username'' = None \<longrightarrow> u ''name'' = Some Undefined) \<and>
     (\<forall>v. p ''email'' = Some v \<longrightarrow> u ''email'' = Some v) \<and>
     (p ''email'' = None \<longrightarrow> u ''email'' = Some Undefined) \<and>
     (\<forall>v. p ''imageSrc'' = Some v \<longrightarrow> u ''image'' = Some v) \<and>
     (p ''imageSrc'' = None \<longrightarrow> u ''image'' = Some Undefined) \<and>
     (\<forall>v. p ''address'' = Some v \<longrightarrow> u ''address'' = Some v) \<and>
     (p ''address'' = None \<longrightarrow> u ''address'' = Some Undefined) \<and>
     (\<forall>k v. k \<notin> {''sub'', ''username'', ''email'', ''imageSrc'', ''address''} \<longrightarrow>
        profile (p(k := v)) = Inr u)"
proof (intro exI conjI allI impI)
  show ret: "profile p = Inr [''id'' \<mapsto> getprop p ''sub'', ''name'' \<mapsto> getprop p ''username'',
          ''email'' \<mapsto> getprop p ''email'', ''image'' \<mapsto> getprop p ''imageSrc'',
          ''address'' \<mapsto> getprop p ''address'']"
    (is "_ = Inr ?u")
    by (simp only: profile_def)
  show "dom ?u = {''id'', ''name'', ''email'', ''image'', ''address''}"
    by (simp only: dom_fun_upd dom_empty option.distinct if_False insert_commute)
  show "profile (p(k := v)) = Inr ?u"
    if "k \<notin> {''sub'', ''username'', ''email'', ''imageSrc'', ''address''}" for k v
    using profile_other_claim [OF that] ret by simp
qed (simp_all add: getprop_Some getprop_None)

theorem profile_five_fields_witness:
  "\<exists>u. profile [''sub'' \<mapsto> Str ''u1'', ''username'' \<mapsto> Str ''alice'',
                ''imageSrc'' \<mapsto> Str ''https://x/img.png'', ''address'' \<mapsto> Str ''0xabc'']
         = Inr u \<and>
       dom u = {''id'', ''name'', ''email'', ''image'', ''address''} \<and>
       u ''id'' = Some (Str ''u1'') \<and>
       u ''name'' = Some (Str ''alice'') \<and>
       u ''email'' = Some Undefined \<and>
       u ''image'' = Some (Str ''https://x/img.png'') \<and>
       u ''address'' = Some (Str ''0xabc'') \<and>
       profile [''sub'' \<mapsto> Str ''u1'', ''username'' \<mapsto> Str ''alice'',
                ''imageSrc'' \<mapsto> Str ''https://x/img.png'', ''address'' \<mapsto> Str ''0xabc'',
                ''locale'' \<mapsto> Str ''en''] = Inr u"
proof -
  let ?p = "[''sub'' \<mapsto> Str ''u1'', ''username'' \<mapsto> Str ''alice'',
             ''imageSrc'' \<mapsto> Str ''https://x/img.png'', ''address'' \<mapsto> Str ''0xabc'']"
  have other: "''locale'' \<notin> {''sub'', ''username'', ''email'', ''imageSrc'', ''address''}"
    by simp
  have given: "?p ''sub'' = Some (Str ''u1'')" "?p ''username'' = Some (Str ''alice'')"
    "?p ''email'' = None" "?p ''imageSrc'' = Some (Str ''https://x/img.png'')"
    "?p ''address'' = Some (Str ''0xabc'')"
    by simp_all
  from profile_five_fields [of ?p]
  obtain u where u: "profile ?p = Inr u"
    and d: "dom u = {''id'', ''name'', ''email'', ''image'', ''address''}"
    and i: "\<forall>v. ?p ''sub'' = Some v \<longrightarrow> u ''id'' = Some v"
    and n: "\<forall>v. ?p ''username'' = Some v \<longrightarrow> u ''name'' = Some v"
    and e: "?p ''email'' = None \<longrightarrow> u ''email'' = Some Undefined"
    and m: "\<forall>v. ?p ''imageSrc'' = Some v \<longrightarrow> u ''image'' = Some v"
    and a: "\<forall>v. ?p ''address'' = Some v \<longrightarrow> u ''address'' = Some v"
    and o: "\<forall>k v. k \<notin> {''sub'', ''username'', ''email'', ''imageSrc'', ''address''} \<longrightarrow>
        profile (?p(k := v)) = Inr u"
    by (elim exE conjE)
  from i given(1) have id: "u ''id'' = Some (Str ''u1'')"
    by (elim allE [of _ "Str ''u1''"] impE)
  from n given(2) have name: "u ''name'' = Some (Str ''alice'')"
    by (elim allE [of _ "Str ''alice''"] impE)
  from e given(3) have email: "u ''email'' = Some Undefined"
    by (elim impE)
  from m given(4) have image: "u ''image'' = Some (Str ''https://x/img.png'')"
    by (elim allE [of _ "Str ''https://x/img.png''"] impE)
  from a given(5) have address: "u ''address'' = Some (Str ''0xabc'')"
    by (elim allE [of _ "Str ''0xabc''"] impE)
  from o other have "profile (?p(''locale'' \<mapsto> Str ''en'')) = Inr u"
    by (elim allE [of _ "''locale''"] allE [of _ "Some (Str ''en'')"] impE)
  with u d id name email image address show ?thesis
    by (intro exI conjI)
qed

text \<open>
  C9. A call of the method on an allocated claims object returns the address of a newly
  allocated object and leaves every object allocated before the call as it was, the
  claims object among them. The object returned is determined by the contents of the
  claims object alone: two calls on claims objects with the same contents, in any two
  stores, return objects with the same contents.
\<close>

theorem profile_call_pure:
  assumes "r1 < lim st1" and "r2 < lim st2" and "cells st1 r1 = cells st2 r2"
  shows "\<exists>a1 st1' a2 st2'.
           profile_call st1 r1 = (Inr a1, st1') \<and>
           profile_call st2 r2 = (Inr a2, st2') \<and>
           cells st1' a1 = cells st2' a2 \<and>
           profile (cells st1 r1) = Inr (cells st1' a1) \<and>
           a1 = lim st1 \<and>
           (\<forall>b. b < lim st1 \<longrightarrow> cells st1' b = cells st1 b) \<and>
           cells st1' r1 = cells st1 r1"
proof -
  obtain u where u: "profile (cells st1 r1) = Inr u"
    using profile_returns by blast
  obtain a1 st1' where a1: "alloc st1 u = (a1, st1')"
    by (cases "alloc st1 u")
  obtain a2 st2' where a2: "alloc st2 u = (a2, st2')"
    by (cases "alloc st2 u")
  from u a1 have call1: "profile_call st1 r1 = (Inr a1, st1')"
    by (simp add: profile_call_def)
  from u a2 assms(3) have call2: "profile_call st2 r2 = (Inr a2, st2')"
    by (simp add: profile_call_def)
  from alloc_frame [OF a1] have f1: "a1 = lim st1" "cells st1' a1 = u"
    and old1: "\<And>b. b < lim st1 \<Longrightarrow> cells st1' b = cells st1 b"
    by simp_all
  from alloc_frame [OF a2] have f2: "cells st2' a2 = u"
    by simp
  from old1 assms(1) have "cells st1' r1 = cells st1 r1"
    by simp
  with call1 call2 u f1 f2 old1 show ?thesis
    by simp
qed

theorem profile_call_pure_witness:
  "\<exists>a1 st1' a2 st2'.
     profile_call \<lparr> cells = (\<lambda>_. Map.empty)(0 := [''sub'' \<mapsto> Str ''u1'']), lim = 1 \<rparr> 0
       = (Inr a1, st1') \<and>
     profile_call \<lparr> cells = (\<lambda>_. Map.empty)(0 := [''locale'' \<mapsto> Str ''en''],
                                              1 := [''sub'' \<mapsto> Str ''u1'']), lim = 2 \<rparr> 1
       = (Inr a2, st2') \<and>
     cells st1' a1 = cells st2' a2 \<and>
     a1 = 1 \<and>
     cells st1' 0 = [''sub'' \<mapsto> Str ''u1'']"
proof -
  let ?st1 = "\<lparr> cells = (\<lambda>_. Map.empty)(0 := [''sub'' \<mapsto> Str ''u1'']), lim = 1 \<rparr>"
  let ?st2 = "\<lparr> cells = (\<lambda>_. Map.empty)(0 := [''locale'' \<mapsto> Str ''en''],
                                            1 := [''sub'' \<mapsto> Str ''u1'']), lim = 2 \<rparr>"
  have live: "0 < lim ?st1" "1 < lim ?st2"
    by simp_all
  have same: "cells ?st1 0 = cells ?st2 1"
    by simp
  from profile_call_pure [OF live same]
  obtain a1 st1' a2 st2' where
    "profile_call ?st1 0 = (Inr a1, st1')"
    "profile_call ?st2 1 = (Inr a2, st2')"
    "cells st1' a1 = cells st2' a2"
    "a1 = lim ?st1"
    "cells st1' 0 = cells ?st1 0"
    by blast
  then show ?thesis
    by simp
qed

end
